theory Spec2Isabelle
  imports Complex_Main "HOL-Library.Word" "HOL-Library.Sublist"
begin

section \<open>JavaScript values\<close>

text \<open>
  A JavaScript string is a sequence of UTF-16 code units: \<open>length\<close> counts code units and
  \<open>slice\<close> cuts between them. Literals of the source are written \<open>js ''...''\<close>; a code unit
  outside ASCII is written as a one-element list.
\<close>

type_synonym jsstring = "16 word list"

definition js :: "string \<Rightarrow> jsstring" where
  "js s = map of_char s"

text \<open>
  \<open>String.prototype.slice(b, e)\<close> for indices that are not negative: the code units from
  \<open>b\<close> up to, not including, \<open>e\<close>, both capped at the length.
\<close>

definition slice :: "jsstring \<Rightarrow> nat \<Rightarrow> nat \<Rightarrow> jsstring" where
  "slice s b e = drop b (take e s)"

text \<open>
  \<open>String.prototype.trim\<close> removes, at both ends, the code points that ECMAScript calls
  WhiteSpace or LineTerminator. All of them are single code units.
\<close>

definition isWhiteSpace :: "16 word \<Rightarrow> bool" where
  "isWhiteSpace c =
     (c = 0x0009 \<or> c = 0x000A \<or> c = 0x000B \<or> c = 0x000C \<or> c = 0x000D \<or> c = 0x0020 \<or>
      c = 0x00A0 \<or> c = 0x1680 \<or> (0x2000 \<le> c \<and> c \<le> 0x200A) \<or> c = 0x2028 \<or>
      c = 0x2029 \<or> c = 0x202F \<or> c = 0x205F \<or> c = 0x3000 \<or> c = 0xFEFF)"

definition trim :: "jsstring \<Rightarrow> jsstring" where
  "trim s = rev (dropWhile isWhiteSpace (rev (dropWhile isWhiteSpace s)))"

text \<open>\<open>Array.prototype.join(sep)\<close> on an array of strings.\<close>

fun join :: "jsstring \<Rightarrow> jsstring list \<Rightarrow> jsstring" where
  "join sep [] = []"
| "join sep [x] = x"
| "join sep (x # y # ys) = x @ sep @ join sep (y # ys)"

text \<open>
  A JavaScript number is a double. The code never computes with the numbers it is given
  (settings, scores): it stores them, passes them on, and prints them in a template
  literal. Settings and the scores of the discriminator are modelled as rationals (finite
  doubles are rationals, in the same order); where a number is printed, the printing
  function of the runtime, \<open>Number::toString\<close>, is a parameter \<open>numToString\<close>. On a natural
  number below \<open>10^21\<close> it prints the decimal digits, which is \<open>natToString\<close>.
\<close>

type_synonym number = rat

fun natToString :: "nat \<Rightarrow> jsstring" where
  "natToString n =
     (if n < 10 then [of_nat (48 + n)]
      else natToString (n div 10) @ [of_nat (48 + n mod 10)])"

declare natToString.simps [simp del]

text \<open>An object literal with optional properties: a map from property names to values.\<close>

type_synonym 'v object = "string \<rightharpoonup> 'v"

section \<open>The invocation contract (lib/langchain-client)\<close>

text \<open>
  \<open>AIInvokeResult<T>\<close> is \<open>{ success: true, response: T } | { success: false, error }\<close>:
  the sum \<open>'e + 'a\<close>, with \<open>Inl\<close> the failure.

  What the hosted model sends back is a JSON value; a zod schema either accepts it, giving
  the parsed object, or refuses it.
\<close>

datatype json =
    JNull
  | JBoolean bool
  | JNumber number
  | JString jsstring
  | JArray "json list"
  | JObject "string \<Rightarrow> json option"

type_synonym 'a schema = "json \<Rightarrow> 'a option"

text \<open>\<open>z.number()\<close>, \<open>.min(m)\<close> and \<open>.max(m)\<close> (both bounds inclusive), \<open>z.string()\<close>.\<close>

definition z_number :: "number schema" where
  "z_number j = (case j of JNumber x \<Rightarrow> Some x | _ \<Rightarrow> None)"

definition z_min :: "number \<Rightarrow> number schema \<Rightarrow> number schema" where
  "z_min m s j = (case s j of None \<Rightarrow> None | Some x \<Rightarrow> if x < m then None else Some x)"

definition z_max :: "number \<Rightarrow> number schema \<Rightarrow> number schema" where
  "z_max m s j = (case s j of None \<Rightarrow> None | Some x \<Rightarrow> if m < x then None else Some x)"

definition z_string :: "jsstring schema" where
  "z_string j = (case j of JString x \<Rightarrow> Some x | _ \<Rightarrow> None)"

text \<open>
  \<open>z.object({ key: s })\<close> with one property: the value must be an object whose property
  \<open>key\<close> the schema \<open>s\<close> accepts (a missing property is \<open>undefined\<close>, which neither
  \<open>z.number()\<close> nor \<open>z.string()\<close> accepts); other properties are dropped.
\<close>

definition z_object1 :: "string \<Rightarrow> 'a schema \<Rightarrow> 'a schema" where
  "z_object1 key s j =
     (case j of
        JObject props \<Rightarrow> (case props key of None \<Rightarrow> None | Some v \<Rightarrow> s v)
      | _ \<Rightarrow> None)"

text \<open>The two kinds of failure of section 7 of the specification.\<close>

datatype 'e failure = InvocationFailure 'e | ShapeValidationFailure

text \<open>
  Modelled from the spec: \<open>langchainClient.invoke\<close> of \<open>lib/langchain-client\<close>, which is not
  among the sources. Section 6: "given a role identity, a fixed behavioral prompt, a
  per-call input, tunable generation settings, and an expected output shape, returns
  either validated structured output or a failure reason", and "the collaborator is
  responsible for enforcing this shape and failing the call if the raw result does not
  conform". The hosted model is the parameter \<open>model\<close>: it fails, or answers with a raw
  JSON value.
\<close>

definition langchainClient_invoke ::
  "(jsstring \<Rightarrow> jsstring \<Rightarrow> jsstring \<Rightarrow> 's \<Rightarrow> jsstring \<Rightarrow> 'e + json) \<Rightarrow>
   jsstring \<Rightarrow> jsstring \<Rightarrow> jsstring \<Rightarrow> 's \<Rightarrow> 'a schema \<Rightarrow> jsstring \<Rightarrow>
   'e failure + 'a" where
  "langchainClient_invoke model modelName systemPrompt userPrompt settings outputSchema provider =
     (case model modelName systemPrompt userPrompt settings provider of
        Inl e \<Rightarrow> Inl (InvocationFailure e)
      | Inr raw \<Rightarrow>
          (case outputSchema raw of
             None \<Rightarrow> Inl ShapeValidationFailure
           | Some response \<Rightarrow> Inr response))"

text \<open>
  Every module declares \<open>DEFAULT_MODEL_NAME\<close> and \<open>DEFAULT_MODEL_PROVIDER\<close> with the same
  values; the system prompts and the default settings differ and carry the module's name.
\<close>

definition DEFAULT_MODEL_NAME :: jsstring where
  "DEFAULT_MODEL_NAME = js ''gpt-4o-mini''"

definition DEFAULT_MODEL_PROVIDER :: jsstring where
  "DEFAULT_MODEL_PROVIDER = js ''openai''"

section \<open>The discriminator (discriminator.ts)\<close>

record DiscriminatorOutput =
  score :: number

definition DiscriminatorOutputSchema :: "DiscriminatorOutput schema" where
  "DiscriminatorOutputSchema j =
     map_option (\<lambda>x. \<lparr>score = x\<rparr>) (z_object1 ''score'' (z_max 10 (z_min 0 z_number)) j)"

definition Discriminator_DEFAULT_SYSTEM_PROMPT :: jsstring where
  \<open>Discriminator_DEFAULT_SYSTEM_PROMPT =
     js ''You are a discriminator that evaluates how well a generator picked 3 experiences from a CV that best meet given job requirements, and summarized them.\<newline>\<newline>You receive:\<newline>1. The job requirements (what the role is looking for)\<newline>2. The original instruction to the generator (e.g. pick 3 experiences that best meet the job requirements)\<newline>3. The full CV (source text)\<newline>4. The generator's output (exactly 3 experiences with 2-line summaries each)\<newline>5. Optionally: "Expected experiences" '' @ [0x2014] @ js '' if provided, these are the experiences deemed most correct for this job; treat them as the ultimate ground truth of what is a good selection.\<newline>\<newline>Scoring rules (0'' @ [0x2013] @ js ''10):\<newline>- The "expected experiences" (when provided) are the primary standard for what counts as a good selection. The closer the generator's 3 chosen experiences are to these, the higher the score.\<newline>- Do NOT give a score above 6 unless the generator's chosen experiences significantly overlap with, or are very close variants of, the expected experiences.\<newline>- 10 = perfect: the generator chose 3 experiences that match the expected experiences extremely well, summaries are accurate to the CV, and the instruction is followed (exactly 3, 2-line summaries).\<newline>- 0 = very bad: wrong or irrelevant experiences, inaccurate summaries, or instruction not followed (e.g. not 3 experiences, or not tied to job requirements).\<newline>\<newline>Be consistent and critical. Consider: fit to job requirements, accuracy vs source CV, and, above all, whether the right experiences were selected according to the expected experiences. When expected experiences are provided, treat them as the ultimate source of truth for what is correct. Only output the score. Be strict; scores above 8 should mean the output is really very good and closely aligned with the expected experiences.''\<close>

definition Discriminator_DEFAULT_SETTINGS :: "number object" where
  "Discriminator_DEFAULT_SETTINGS =
     [''temperature'' \<mapsto> 0.1, ''maxTokens'' \<mapsto> 64, ''timeout'' \<mapsto> 30000]"

record DiscriminatorContext =
  generatorPrompt :: jsstring
  cvContent :: jsstring
  jobRequirements :: jsstring
  expectedExperiences :: "jsstring option"

definition Discriminator_expectedBlock :: "jsstring option \<Rightarrow> jsstring" where
  "Discriminator_expectedBlock expected =
     (case expected of
        None \<Rightarrow> js ''''
      | Some e \<Rightarrow>
          if trim e \<noteq> js ''''
          then js ''\<newline>\<newline>---\<newline>Expected experiences (deemed most correct for this job; score alignment with these):\<newline>'' @ e
          else js '''')"

definition Discriminator_userPrompt :: "jsstring \<Rightarrow> DiscriminatorContext \<Rightarrow> jsstring" where
  "Discriminator_userPrompt generatorOutput context =
     js ''Job requirements:\<newline>'' @ jobRequirements context @
     js ''\<newline>\<newline>---\<newline>Original instruction to the generator:\<newline>'' @ generatorPrompt context @
     js ''\<newline>\<newline>---\<newline>Source text (CV):\<newline>'' @ cvContent context @
     Discriminator_expectedBlock (expectedExperiences context) @
     js ''\<newline>\<newline>---\<newline>Generator's output (3 experiences + 2-line summaries):\<newline>'' @ generatorOutput @
     js ''\<newline>\<newline>Score how well the generator picked 3 experiences that best meet the job requirements and summarised them (0'' @ [0x2013] @ js ''10).''"

definition Discriminator_run ::
  "(jsstring \<Rightarrow> jsstring \<Rightarrow> jsstring \<Rightarrow> number object \<Rightarrow> DiscriminatorOutput schema \<Rightarrow> jsstring \<Rightarrow>
      'e + DiscriminatorOutput) \<Rightarrow>
   jsstring \<Rightarrow> DiscriminatorContext \<Rightarrow> 'e + number" where
  "Discriminator_run invoke generatorOutput context =
     (let userPrompt = Discriminator_userPrompt generatorOutput context;
          result = invoke DEFAULT_MODEL_NAME Discriminator_DEFAULT_SYSTEM_PROMPT userPrompt
                     Discriminator_DEFAULT_SETTINGS DiscriminatorOutputSchema DEFAULT_MODEL_PROVIDER
      in case result of
           Inr response \<Rightarrow> Inr (score response)
         | Inl error \<Rightarrow> Inl error)"

section \<open>The configurator (second module of discriminator.ts)\<close>

record ConfiguratorOutput =
  suggestedPrompt :: jsstring

definition ConfiguratorOutputSchema :: "ConfiguratorOutput schema" where
  "ConfiguratorOutputSchema j =
     map_option (\<lambda>x. \<lparr>suggestedPrompt = x\<rparr>) (z_object1 ''suggestedPrompt'' z_string j)"

text \<open>
  The numbers of a run (its settings and its score) are of a type \<open>'n\<close>: the configurator
  stores them and prints the score with \<open>numToString\<close>.
\<close>

record 'n GeneratorConfigSnapshot =
  temperature :: 'n
  maxTokens :: 'n
  timeout :: "'n option"

record 'n ConfiguratorHistoryEntry =
  generatorPrompt :: jsstring
  generatorConfig :: "'n GeneratorConfigSnapshot"
  score :: 'n
  suggestedNextPrompt :: "jsstring option"

definition Configurator_DEFAULT_SYSTEM_PROMPT :: jsstring where
  \<open>Configurator_DEFAULT_SYSTEM_PROMPT =
     js ''You are a configurator for a GAN-like setup where the generator picks 3 experiences from a CV that best meet job requirements and summarizes them; the discriminator scores how well the choice and summaries match the job (0'' @ [0x2013] @ js ''10; 10 = perfect, 0 = very bad).\<newline>\<newline>- The generator receives the job requirements, the CV, and an instruction (prompt). Temperature is fixed; only the instruction changes.\<newline>- Your job: given the generator's instruction that was used, the score from the discriminator, the job requirements, and CV context, suggest a NEW instruction (prompt) for the generator to use on the NEXT run so that the next score is likely to be higher.\<newline>\<newline>Consider:\<newline>- Rephrasing the instruction to stress job requirements (e.g. platform engineering, DevOps, observability, CI/CD, scale).\<newline>- Asking for different formatting or emphasis (e.g. "highlight technologies from the job description", "focus on developer experience and reliability").\<newline>- Use history of past runs: if a certain phrasing led to a higher score, steer toward that; if the discriminator penalized missing criteria, make the next prompt mention those criteria explicitly.\<newline>- Output only the new instruction text, ready to be used as the generator prompt. Keep it concise (one or two sentences). Do not include the job requirements or CV in your output, only have the instruction.''\<close>

definition Configurator_DEFAULT_SETTINGS :: "number object" where
  "Configurator_DEFAULT_SETTINGS =
     [''temperature'' \<mapsto> 0.2, ''maxTokens'' \<mapsto> 128, ''timeout'' \<mapsto> 30000]"

text \<open>
  A parameter whose name is also the name of a field (\<open>generatorPrompt\<close>, \<open>score\<close>,
  \<open>cvContent\<close>, ...) is written with a prime.
\<close>

text \<open>
  The module's variable \<open>history\<close> is the state: every operation takes it and, when it
  changes it, returns the new one. Calls are sequential (one caller, each call awaited
  before the next).
\<close>

definition getHistory :: "'n ConfiguratorHistoryEntry list \<Rightarrow> 'n ConfiguratorHistoryEntry list" where
  "getHistory history = history"

definition clearHistory :: "'n ConfiguratorHistoryEntry list \<Rightarrow> 'n ConfiguratorHistoryEntry list" where
  "clearHistory history = []"

text \<open>The callback of \<open>history.map((h, i) => ...)\<close>: one line of the history block.\<close>

definition historyLine :: "('n \<Rightarrow> jsstring) \<Rightarrow> 'n ConfiguratorHistoryEntry \<Rightarrow> nat \<Rightarrow> jsstring" where
  \<open>historyLine numToString h i =
     (let part =
            js ''Run '' @ natToString (i + 1) @ js '': prompt="'' @
            slice (generatorPrompt h) 0 120 @
            (if length (generatorPrompt h) > 120 then js ''...'' else js '''') @
            js ''", score='' @ numToString (score h)
      in case suggestedNextPrompt h of
           Some s \<Rightarrow> part @ js '' (suggested next prompt: "'' @ slice s 0 60 @ js ''...")''
         | None \<Rightarrow> part)\<close>

definition historyBlock :: "('n \<Rightarrow> jsstring) \<Rightarrow> 'n ConfiguratorHistoryEntry list \<Rightarrow> jsstring" where
  "historyBlock numToString history =
     (if length history = 0 then js ''No previous runs yet.''
      else join (js ''\<newline>'')
             (map (\<lambda>(i, h). historyLine numToString h i) (enumerate 0 history)))"

definition cvBlock :: "jsstring option \<Rightarrow> jsstring" where
  "cvBlock cvContent' =
     (case cvContent' of
        Some cv \<Rightarrow>
          js ''\<newline>\<newline>Source CV context (excerpt):\<newline>'' @ slice cv 0 1500 @
          (if length cv > 1500 then js ''...'' else js '''')
      | None \<Rightarrow> js '''')"

definition jobBlock :: "jsstring option \<Rightarrow> jsstring" where
  "jobBlock jobRequirements' =
     (case jobRequirements' of
        Some job \<Rightarrow>
          js ''\<newline>\<newline>Job requirements (excerpt):\<newline>'' @ slice job 0 1500 @
          (if length job > 1500 then js ''...'' else js '''')
      | None \<Rightarrow> js '''')"

definition Configurator_userPrompt ::
  "('n \<Rightarrow> jsstring) \<Rightarrow> 'n ConfiguratorHistoryEntry list \<Rightarrow> jsstring \<Rightarrow> 'n \<Rightarrow>
   jsstring option \<Rightarrow> jsstring option \<Rightarrow> jsstring" where
  \<open>Configurator_userPrompt numToString history generatorPrompt' score' cvContent' jobRequirements' =
     js ''History of runs (most recent last):\<newline>'' @ historyBlock numToString history @
     js ''\<newline>\<newline>Current run we just got the score for: prompt="'' @ generatorPrompt' @
     js ''", score='' @ numToString score' @ js ''.'' @
     jobBlock jobRequirements' @ cvBlock cvContent' @
     js ''\<newline>\<newline>Suggest the next generator prompt (instruction only, no CV or job text) to maximise the score. Reply with only the new instruction text.''\<close>

text \<open>
  \<open>suggestNextPrompt\<close>: the entry is pushed first, the request is built from the history
  that already holds it, and the invocation \<open>invoke\<close> (the imported client) is called.
  The result is the returned \<open>AIInvokeResult\<close> and the history after the call.
\<close>

definition suggestNextPrompt ::
  "('n \<Rightarrow> jsstring) \<Rightarrow>
   (jsstring \<Rightarrow> jsstring \<Rightarrow> jsstring \<Rightarrow> number object \<Rightarrow> ConfiguratorOutput schema \<Rightarrow> jsstring \<Rightarrow>
      'e + ConfiguratorOutput) \<Rightarrow>
   jsstring \<Rightarrow> 'n GeneratorConfigSnapshot \<Rightarrow> 'n \<Rightarrow> jsstring option \<Rightarrow> jsstring option \<Rightarrow>
   'n ConfiguratorHistoryEntry list \<Rightarrow>
   ('e + jsstring) \<times> 'n ConfiguratorHistoryEntry list" where
  "suggestNextPrompt numToString invoke generatorPrompt' generatorConfig' score' cvContent'
       jobRequirements' history0 =
     (let entry = \<lparr>generatorPrompt = generatorPrompt', generatorConfig = generatorConfig',
                    score = score', suggestedNextPrompt = None\<rparr>;
          history = history0 @ [entry];
          userPrompt = Configurator_userPrompt numToString history generatorPrompt' score'
                         cvContent' jobRequirements';
          result = invoke DEFAULT_MODEL_NAME Configurator_DEFAULT_SYSTEM_PROMPT userPrompt
                     Configurator_DEFAULT_SETTINGS ConfiguratorOutputSchema DEFAULT_MODEL_PROVIDER
      in case result of
           Inr response \<Rightarrow>
             (let suggested = trim (suggestedPrompt response);
                  history' =
                    (if length history > 0 \<and> suggested \<noteq> js ''''
                     then history[length history - 1 :=
                            (history ! (length history - 1))\<lparr>suggestedNextPrompt := Some suggested\<rparr>]
                     else history)
              in (Inr (if suggested \<noteq> js '''' then suggested else generatorPrompt'), history'))
         | Inl error \<Rightarrow> (Inl error, history))"

text \<open>
  A sequence of calls, one after the other: each call has its arguments and its own
  invocation (what the client answers to this call).
\<close>

record ('n, 'e) suggestNextPrompt_call =
  call_invoke :: "jsstring \<Rightarrow> jsstring \<Rightarrow> jsstring \<Rightarrow> number object \<Rightarrow> ConfiguratorOutput schema \<Rightarrow>
                  jsstring \<Rightarrow> 'e + ConfiguratorOutput"
  call_generatorPrompt :: jsstring
  call_generatorConfig :: "'n GeneratorConfigSnapshot"
  call_score :: 'n
  call_cvContent :: "jsstring option"
  call_jobRequirements :: "jsstring option"

fun suggestNextPrompt_calls ::
  "('n \<Rightarrow> jsstring) \<Rightarrow> ('n, 'e) suggestNextPrompt_call list \<Rightarrow> 'n ConfiguratorHistoryEntry list \<Rightarrow>
   ('e + jsstring) list \<times> 'n ConfiguratorHistoryEntry list" where
  "suggestNextPrompt_calls numToString [] history = ([], history)"
| "suggestNextPrompt_calls numToString (c # cs) history =
     (let (r, history') =
            suggestNextPrompt numToString (call_invoke c) (call_generatorPrompt c)
              (call_generatorConfig c) (call_score c) (call_cvContent c) (call_jobRequirements c)
              history;
          (rs, history'') = suggestNextPrompt_calls numToString cs history'
      in (r # rs, history''))"

section \<open>The generator (generator.ts)\<close>

record GeneratorOutput =
  "text" :: jsstring

definition GeneratorOutputSchema :: "GeneratorOutput schema" where
  "GeneratorOutputSchema j = map_option (\<lambda>x. \<lparr>text = x\<rparr>) (z_object1 ''text'' z_string j)"

definition Generator_DEFAULT_SYSTEM_PROMPT :: jsstring where
  \<open>Generator_DEFAULT_SYSTEM_PROMPT =
     js ''You are a generator. Respond with the requested text only.''\<close>

definition Generator_DEFAULT_SETTINGS :: "number object" where
  "Generator_DEFAULT_SETTINGS =
     [''temperature'' \<mapsto> 0.7, ''maxTokens'' \<mapsto> 1024, ''timeout'' \<mapsto> 30000]"

text \<open>
  \<open>GeneratorSettings\<close> has optional properties of type \<open>number\<close>: an object of this type
  holds a property or not, and a property it holds is a number or \<open>undefined\<close> (\<open>None\<close>).
  The argument \<open>overrides\<close> is itself optional. The spread \<open>{ ...a, ...b }\<close> copies the
  properties that \<open>a\<close> holds, then those that \<open>b\<close> holds, a later one replacing an earlier
  one of the same name; spreading \<open>undefined\<close> copies nothing.
\<close>

type_synonym GeneratorSettings = "number option object"

definition spread :: "'v object \<Rightarrow> 'v object \<Rightarrow> 'v object" where
  "spread a b = a ++ b"

definition Generator_settings :: "GeneratorSettings option \<Rightarrow> GeneratorSettings" where
  "Generator_settings overrides =
     spread (map_option Some \<circ> Generator_DEFAULT_SETTINGS)
       (case overrides of None \<Rightarrow> Map.empty | Some ov \<Rightarrow> ov)"

definition Generator_run ::
  "(jsstring \<Rightarrow> jsstring \<Rightarrow> jsstring \<Rightarrow> GeneratorSettings \<Rightarrow> GeneratorOutput schema \<Rightarrow> jsstring \<Rightarrow>
      'e + GeneratorOutput) \<Rightarrow>
   jsstring \<Rightarrow> GeneratorSettings option \<Rightarrow> 'e + jsstring" where
  "Generator_run invoke prompt overrides =
     (let settings = Generator_settings overrides;
          result = invoke DEFAULT_MODEL_NAME Generator_DEFAULT_SYSTEM_PROMPT prompt settings
                     GeneratorOutputSchema DEFAULT_MODEL_PROVIDER
      in case result of
           Inr response \<Rightarrow> Inr (text response)
         | Inl error \<Rightarrow> Inl error)"

section \<open>Facts about strings\<close>

lemma js_Nil [simp]: "js [] = []"
  by (simp add: js_def)

lemma slice_0 [simp]: "slice s 0 n = take n s"
  by (simp add: slice_def)

lemma trim_Nil_iff: "trim s = [] \<longleftrightarrow> (\<forall>c\<in>set s. isWhiteSpace c)"
proof -
  have "trim s = [] \<longleftrightarrow> (\<forall>c\<in>set (dropWhile isWhiteSpace s). isWhiteSpace c)"
    by (simp add: trim_def dropWhile_eq_Nil_conv)
  also have "\<dots> \<longleftrightarrow> dropWhile isWhiteSpace s = []"
  proof
    assume a: "\<forall>c\<in>set (dropWhile isWhiteSpace s). isWhiteSpace c"
    show "dropWhile isWhiteSpace s = []"
    proof (rule ccontr)
      assume n: "dropWhile isWhiteSpace s \<noteq> []"
      then have "\<not> isWhiteSpace (hd (dropWhile isWhiteSpace s))"
        by (rule hd_dropWhile)
      moreover have "hd (dropWhile isWhiteSpace s) \<in> set (dropWhile isWhiteSpace s)"
        using n by simp
      ultimately show False using a by blast
    qed
  qed (auto dest: set_dropWhileD)
  also have "\<dots> \<longleftrightarrow> (\<forall>c\<in>set s. isWhiteSpace c)"
    by (simp add: dropWhile_eq_Nil_conv)
  finally show ?thesis .
qed

lemma trim_decompose:
  "\<exists>pre post. s = pre @ trim s @ post \<and> list_all isWhiteSpace pre \<and> list_all isWhiteSpace post"
proof -
  define d where "d = dropWhile isWhiteSpace s"
  have s: "s = takeWhile isWhiteSpace s @ d"
    by (simp add: d_def)
  have "rev d = takeWhile isWhiteSpace (rev d) @ dropWhile isWhiteSpace (rev d)"
    by simp
  then have "rev (rev d) = rev (takeWhile isWhiteSpace (rev d) @ dropWhile isWhiteSpace (rev d))"
    by (rule arg_cong)
  then have "d = rev (dropWhile isWhiteSpace (rev d)) @ rev (takeWhile isWhiteSpace (rev d))"
    by (simp only: rev_rev_ident rev_append)
  then have d: "d = trim s @ rev (takeWhile isWhiteSpace (rev d))"
    by (simp only: trim_def d_def)
  have 1: "list_all isWhiteSpace (takeWhile isWhiteSpace s)"
    by (simp add: list_all_iff) (meson set_takeWhileD)
  have 2: "list_all isWhiteSpace (rev (takeWhile isWhiteSpace (rev d)))"
    by (simp add: list_all_iff) (meson set_takeWhileD)
  from s d have "s = takeWhile isWhiteSpace s @ trim s @ rev (takeWhile isWhiteSpace (rev d))"
    by simp
  with 1 2 show ?thesis by blast
qed

lemma trim_ends:
  assumes "trim s \<noteq> []"
  shows "\<not> isWhiteSpace (hd (trim s))" and "\<not> isWhiteSpace (last (trim s))"
proof -
  define d where "d = dropWhile isWhiteSpace s"
  define t where "t = dropWhile isWhiteSpace (rev d)"
  have ts: "trim s = rev t" by (simp add: trim_def t_def d_def)
  with assms have tn: "t \<noteq> []" by simp
  then have "\<not> isWhiteSpace (hd t)" unfolding t_def by (rule hd_dropWhile)
  then show "\<not> isWhiteSpace (last (trim s))" using tn by (simp add: ts last_rev)
  have dn: "d \<noteq> []" using tn by (auto simp: t_def)
  then have hd: "\<not> isWhiteSpace (hd d)" unfolding d_def by (rule hd_dropWhile)
  have "rev d = takeWhile isWhiteSpace (rev d) @ t" by (simp add: t_def)
  then have "last (rev d) = last t" using tn by (metis last_appendR)
  then have "last t = hd d" using dn by (simp add: last_rev)
  then show "\<not> isWhiteSpace (hd (trim s))" using hd tn by (simp add: ts hd_rev)
qed

section \<open>Properties of the discriminator\<close>

text \<open>The request that \<open>run\<close> sends to the client, and what it returns.\<close>

lemma Discriminator_run_eq:
  "Discriminator_run invoke generatorOutput context =
     (case invoke DEFAULT_MODEL_NAME Discriminator_DEFAULT_SYSTEM_PROMPT
             (Discriminator_userPrompt generatorOutput context) Discriminator_DEFAULT_SETTINGS
             DiscriminatorOutputSchema DEFAULT_MODEL_PROVIDER of
        Inr response \<Rightarrow> Inr (DiscriminatorOutput.score response)
      | Inl error \<Rightarrow> Inl error)"
  by (simp add: Discriminator_run_def)

text \<open>
  C5. With the client of the specification, every score that a successful call of the
  discriminator's \<open>run\<close> returns lies between 0 and 10. When the model answers with an
  object whose \<open>score\<close> is a number \<open>x\<close>, the call returns \<open>x\<close> itself if it lies in the
  range, and fails with a shape-validation failure otherwise: the score is never clamped.
\<close>

theorem Discriminator_run_score_bounds:
  "(Discriminator_run (langchainClient_invoke model) generatorOutput context = Inr s \<longrightarrow>
      0 \<le> s \<and> s \<le> 10) \<and>
   (model DEFAULT_MODEL_NAME Discriminator_DEFAULT_SYSTEM_PROMPT
        (Discriminator_userPrompt generatorOutput context) Discriminator_DEFAULT_SETTINGS
        DEFAULT_MODEL_PROVIDER = Inr (JObject props) \<and>
    props ''score'' = Some (JNumber x) \<longrightarrow>
      Discriminator_run (langchainClient_invoke model) generatorOutput context =
        (if 0 \<le> x \<and> x \<le> 10 then Inr x else Inl ShapeValidationFailure))"
  by (auto simp: Discriminator_run_def langchainClient_invoke_def DiscriminatorOutputSchema_def
        z_object1_def z_max_def z_min_def z_number_def Let_def
      split: sum.splits option.splits json.splits if_splits)

theorem Discriminator_run_score_bounds_witness:
  "Discriminator_run
     (langchainClient_invoke (\<lambda>m s u st p. Inr (JObject [''score'' \<mapsto> JNumber 7]) :: unit + json))
     (js ''1. Platform engineer'')
     \<lparr>DiscriminatorContext.generatorPrompt = js ''Pick 3 experiences matching the job.'',
      cvContent = js ''2019-2023 Platform engineer.'',
      jobRequirements = js ''DevOps, CI/CD, observability.'',
      expectedExperiences = None\<rparr> = Inr 7 \<and> (0::rat) \<le> 7 \<and> (7::rat) \<le> 10 \<and>
   Discriminator_run
     (langchainClient_invoke (\<lambda>m s u st p. Inr (JObject [''score'' \<mapsto> JNumber 11]) :: unit + json))
     (js ''1. Platform engineer'')
     \<lparr>DiscriminatorContext.generatorPrompt = js ''Pick 3 experiences matching the job.'',
      cvContent = js ''2019-2023 Platform engineer.'',
      jobRequirements = js ''DevOps, CI/CD, observability.'',
      expectedExperiences = None\<rparr> = Inl ShapeValidationFailure"
  using Discriminator_run_score_bounds
      [of "\<lambda>m s u st p. Inr (JObject [''score'' \<mapsto> JNumber 7]) :: unit + json"
          "js ''1. Platform engineer''"
          "\<lparr>DiscriminatorContext.generatorPrompt = js ''Pick 3 experiences matching the job.'',
            cvContent = js ''2019-2023 Platform engineer.'',
            jobRequirements = js ''DevOps, CI/CD, observability.'',
            expectedExperiences = None\<rparr>" 7 "[''score'' \<mapsto> JNumber 7]" 7]
    Discriminator_run_score_bounds
      [of "\<lambda>m s u st p. Inr (JObject [''score'' \<mapsto> JNumber 11]) :: unit + json"
          "js ''1. Platform engineer''"
          "\<lparr>DiscriminatorContext.generatorPrompt = js ''Pick 3 experiences matching the job.'',
            cvContent = js ''2019-2023 Platform engineer.'',
            jobRequirements = js ''DevOps, CI/CD, observability.'',
            expectedExperiences = None\<rparr>" 7 "[''score'' \<mapsto> JNumber 11]" 11]
  by simp

text \<open>
  C10. Every call of the discriminator's \<open>run\<close> sends the client one request, and this
  request holds the job requirements, the instruction given to the generator, the source
  text and the generator's output in full, whatever their lengths: each of them occurs in
  the request as a contiguous part.
\<close>

theorem Discriminator_userPrompt_embeds_in_full:
  "Discriminator_run invoke generatorOutput context =
     (case invoke DEFAULT_MODEL_NAME Discriminator_DEFAULT_SYSTEM_PROMPT
             (Discriminator_userPrompt generatorOutput context) Discriminator_DEFAULT_SETTINGS
             DiscriminatorOutputSchema DEFAULT_MODEL_PROVIDER of
        Inr response \<Rightarrow> Inr (DiscriminatorOutput.score response)
      | Inl error \<Rightarrow> Inl error) \<and>
   sublist (jobRequirements context) (Discriminator_userPrompt generatorOutput context) \<and>
   sublist (DiscriminatorContext.generatorPrompt context) (Discriminator_userPrompt generatorOutput context) \<and>
   sublist (cvContent context) (Discriminator_userPrompt generatorOutput context) \<and>
   sublist generatorOutput (Discriminator_userPrompt generatorOutput context)"
proof -
  let ?p = "Discriminator_userPrompt generatorOutput context"
  have "\<exists>a b. ?p = a @ jobRequirements context @ b"
    unfolding Discriminator_userPrompt_def by blast
  then have 1: "sublist (jobRequirements context) ?p"
    unfolding sublist_def .
  have "\<exists>a b. ?p = a @ DiscriminatorContext.generatorPrompt context @ b"
    unfolding Discriminator_userPrompt_def by (metis append.assoc)
  then have 2: "sublist (DiscriminatorContext.generatorPrompt context) ?p"
    unfolding sublist_def .
  have "\<exists>a b. ?p = a @ cvContent context @ b"
    unfolding Discriminator_userPrompt_def by (metis append.assoc)
  then have 3: "sublist (cvContent context) ?p"
    unfolding sublist_def .
  have "\<exists>a b. ?p = a @ generatorOutput @ b"
    unfolding Discriminator_userPrompt_def by (metis append.assoc)
  then have 4: "sublist generatorOutput ?p"
    unfolding sublist_def .
  from 1 2 3 4 show ?thesis
    by (simp add: Discriminator_run_eq)
qed

text \<open>
  C9, as amended. Every call of the discriminator's \<open>run\<close> sends the client one request.
  The request holds the delimited block of expected experiences, with the reference in
  full, exactly when a reference is supplied that has a character other than white space
  (the code tests the trimmed reference). With no reference, or one of white space only,
  the request holds the job requirements, the instruction, the source text and the
  generator's output, and nothing else between the fixed texts.
\<close>

theorem Discriminator_expected_block:
  "Discriminator_run invoke generatorOutput context =
     (case invoke DEFAULT_MODEL_NAME Discriminator_DEFAULT_SYSTEM_PROMPT
             (Discriminator_userPrompt generatorOutput context) Discriminator_DEFAULT_SETTINGS
             DiscriminatorOutputSchema DEFAULT_MODEL_PROVIDER of
        Inr response \<Rightarrow> Inr (DiscriminatorOutput.score response)
      | Inl error \<Rightarrow> Inl error) \<and>
   (expectedExperiences context = Some e \<and> (\<exists>c\<in>set e. \<not> isWhiteSpace c) \<longrightarrow>
      Discriminator_userPrompt generatorOutput context =
        js ''Job requirements:\<newline>'' @ jobRequirements context @
        js ''\<newline>\<newline>---\<newline>Original instruction to the generator:\<newline>'' @
        DiscriminatorContext.generatorPrompt context @
        js ''\<newline>\<newline>---\<newline>Source text (CV):\<newline>'' @ cvContent context @
        js ''\<newline>\<newline>---\<newline>Expected experiences (deemed most correct for this job; score alignment with these):\<newline>'' @ e @
        js ''\<newline>\<newline>---\<newline>Generator's output (3 experiences + 2-line summaries):\<newline>'' @ generatorOutput @
        js ''\<newline>\<newline>Score how well the generator picked 3 experiences that best meet the job requirements and summarised them (0'' @ [0x2013] @ js ''10).'') \<and>
   (expectedExperiences context = None \<or>
    (\<exists>w. expectedExperiences context = Some w \<and> (\<forall>c\<in>set w. isWhiteSpace c)) \<longrightarrow>
      Discriminator_userPrompt generatorOutput context =
        js ''Job requirements:\<newline>'' @ jobRequirements context @
        js ''\<newline>\<newline>---\<newline>Original instruction to the generator:\<newline>'' @
        DiscriminatorContext.generatorPrompt context @
        js ''\<newline>\<newline>---\<newline>Source text (CV):\<newline>'' @ cvContent context @
        js ''\<newline>\<newline>---\<newline>Generator's output (3 experiences + 2-line summaries):\<newline>'' @ generatorOutput @
        js ''\<newline>\<newline>Score how well the generator picked 3 experiences that best meet the job requirements and summarised them (0'' @ [0x2013] @ js ''10).'')"
proof (intro conjI impI)
  show "Discriminator_run invoke generatorOutput context =
     (case invoke DEFAULT_MODEL_NAME Discriminator_DEFAULT_SYSTEM_PROMPT
             (Discriminator_userPrompt generatorOutput context) Discriminator_DEFAULT_SETTINGS
             DiscriminatorOutputSchema DEFAULT_MODEL_PROVIDER of
        Inr response \<Rightarrow> Inr (DiscriminatorOutput.score response)
      | Inl error \<Rightarrow> Inl error)"
    by (rule Discriminator_run_eq)
next
  assume "expectedExperiences context = Some e \<and> (\<exists>c\<in>set e. \<not> isWhiteSpace c)"
  then have "Discriminator_expectedBlock (expectedExperiences context) =
    js ''\<newline>\<newline>---\<newline>Expected experiences (deemed most correct for this job; score alignment with these):\<newline>'' @ e"
    by (simp add: Discriminator_expectedBlock_def trim_Nil_iff)
  then show "Discriminator_userPrompt generatorOutput context =
        js ''Job requirements:\<newline>'' @ jobRequirements context @
        js ''\<newline>\<newline>---\<newline>Original instruction to the generator:\<newline>'' @
        DiscriminatorContext.generatorPrompt context @
        js ''\<newline>\<newline>---\<newline>Source text (CV):\<newline>'' @ cvContent context @
        js ''\<newline>\<newline>---\<newline>Expected experiences (deemed most correct for this job; score alignment with these):\<newline>'' @ e @
        js ''\<newline>\<newline>---\<newline>Generator's output (3 experiences + 2-line summaries):\<newline>'' @ generatorOutput @
        js ''\<newline>\<newline>Score how well the generator picked 3 experiences that best meet the job requirements and summarised them (0'' @ [0x2013] @ js ''10).''"
    by (simp only: Discriminator_userPrompt_def append_assoc)
next
  assume "expectedExperiences context = None \<or>
    (\<exists>w. expectedExperiences context = Some w \<and> (\<forall>c\<in>set w. isWhiteSpace c))"
  then have "Discriminator_expectedBlock (expectedExperiences context) = []"
    by (auto simp: Discriminator_expectedBlock_def trim_Nil_iff)
  then show "Discriminator_userPrompt generatorOutput context =
        js ''Job requirements:\<newline>'' @ jobRequirements context @
        js ''\<newline>\<newline>---\<newline>Original instruction to the generator:\<newline>'' @
        DiscriminatorContext.generatorPrompt context @
        js ''\<newline>\<newline>---\<newline>Source text (CV):\<newline>'' @ cvContent context @
        js ''\<newline>\<newline>---\<newline>Generator's output (3 experiences + 2-line summaries):\<newline>'' @ generatorOutput @
        js ''\<newline>\<newline>Score how well the generator picked 3 experiences that best meet the job requirements and summarised them (0'' @ [0x2013] @ js ''10).''"
    by (simp only: Discriminator_userPrompt_def append_Nil)
qed

text \<open>
  The claim as stated fails on a reference that is not empty but blank. The call of
  \<open>run\<close> with the reference \<open>" "\<close>, with a client that fails with the request it was sent:
  the request has no block of expected experiences.
\<close>

theorem Discriminator_expected_block_counterexample:
  "js '' '' \<noteq> js '''' \<and>
   Discriminator_run (\<lambda>m s u st sc p. Inl u) (js ''1. Platform engineer'')
     \<lparr>DiscriminatorContext.generatorPrompt = js ''Pick 3 experiences matching the job.'',
      cvContent = js ''2019-2023 Platform engineer.'',
      jobRequirements = js ''DevOps, CI/CD, observability.'',
      expectedExperiences = Some (js '' '')\<rparr> =
     Inl (js ''Job requirements:\<newline>DevOps, CI/CD, observability.\<newline>\<newline>---\<newline>Original instruction to the generator:\<newline>Pick 3 experiences matching the job.\<newline>\<newline>---\<newline>Source text (CV):\<newline>2019-2023 Platform engineer.\<newline>\<newline>---\<newline>Generator's output (3 experiences + 2-line summaries):\<newline>1. Platform engineer\<newline>\<newline>Score how well the generator picked 3 experiences that best meet the job requirements and summarised them (0'' @ [0x2013] @ js ''10).'') \<and>
   \<not> sublist (js ''Expected experiences'')
       (js ''Job requirements:\<newline>DevOps, CI/CD, observability.\<newline>\<newline>---\<newline>Original instruction to the generator:\<newline>Pick 3 experiences matching the job.\<newline>\<newline>---\<newline>Source text (CV):\<newline>2019-2023 Platform engineer.\<newline>\<newline>---\<newline>Generator's output (3 experiences + 2-line summaries):\<newline>1. Platform engineer\<newline>\<newline>Score how well the generator picked 3 experiences that best meet the job requirements and summarised them (0'' @ [0x2013] @ js ''10).'')"
proof (intro conjI)
  show "js '' '' \<noteq> js ''''"
    by (simp add: js_def)
  show "Discriminator_run (\<lambda>m s u st sc p. Inl u) (js ''1. Platform engineer'')
     \<lparr>DiscriminatorContext.generatorPrompt = js ''Pick 3 experiences matching the job.'',
      cvContent = js ''2019-2023 Platform engineer.'',
      jobRequirements = js ''DevOps, CI/CD, observability.'',
      expectedExperiences = Some (js '' '')\<rparr> =
     Inl (js ''Job requirements:\<newline>DevOps, CI/CD, observability.\<newline>\<newline>---\<newline>Original instruction to the generator:\<newline>Pick 3 experiences matching the job.\<newline>\<newline>---\<newline>Source text (CV):\<newline>2019-2023 Platform engineer.\<newline>\<newline>---\<newline>Generator's output (3 experiences + 2-line summaries):\<newline>1. Platform engineer\<newline>\<newline>Score how well the generator picked 3 experiences that best meet the job requirements and summarised them (0'' @ [0x2013] @ js ''10).'')"
    by (simp add: Discriminator_run_def Discriminator_userPrompt_def
          Discriminator_expectedBlock_def trim_def isWhiteSpace_def js_def)
  show "\<not> sublist (js ''Expected experiences'')
       (js ''Job requirements:\<newline>DevOps, CI/CD, observability.\<newline>\<newline>---\<newline>Original instruction to the generator:\<newline>Pick 3 experiences matching the job.\<newline>\<newline>---\<newline>Source text (CV):\<newline>2019-2023 Platform engineer.\<newline>\<newline>---\<newline>Generator's output (3 experiences + 2-line summaries):\<newline>1. Platform engineer\<newline>\<newline>Score how well the generator picked 3 experiences that best meet the job requirements and summarised them (0'' @ [0x2013] @ js ''10).'')"
    by (simp add: js_def sublist_code)
qed

theorem Discriminator_expected_block_witness:
  "Discriminator_run (\<lambda>m s u st sc p. Inl u) (js ''1. Platform engineer'')
     \<lparr>DiscriminatorContext.generatorPrompt = js ''Pick 3 experiences.'',
      cvContent = js ''2019-2023 Platform engineer.'',
      jobRequirements = js ''DevOps'',
      expectedExperiences = Some (js ''Platform engineer'')\<rparr> =
   Inl (js ''Job requirements:\<newline>DevOps\<newline>\<newline>---\<newline>Original instruction to the generator:\<newline>Pick 3 experiences.\<newline>\<newline>---\<newline>Source text (CV):\<newline>2019-2023 Platform engineer.\<newline>\<newline>---\<newline>Expected experiences (deemed most correct for this job; score alignment with these):\<newline>Platform engineer\<newline>\<newline>---\<newline>Generator's output (3 experiences + 2-line summaries):\<newline>1. Platform engineer\<newline>\<newline>Score how well the generator picked 3 experiences that best meet the job requirements and summarised them (0'' @ [0x2013] @ js ''10).'') \<and>
   Discriminator_run (\<lambda>m s u st sc p. Inl u) (js ''1. Platform engineer'')
     \<lparr>DiscriminatorContext.generatorPrompt = js ''Pick 3 experiences.'',
      cvContent = js ''2019-2023 Platform engineer.'',
      jobRequirements = js ''DevOps'',
      expectedExperiences = Some (js '' \<newline>'')\<rparr> =
   Inl (js ''Job requirements:\<newline>DevOps\<newline>\<newline>---\<newline>Original instruction to the generator:\<newline>Pick 3 experiences.\<newline>\<newline>---\<newline>Source text (CV):\<newline>2019-2023 Platform engineer.\<newline>\<newline>---\<newline>Generator's output (3 experiences + 2-line summaries):\<newline>1. Platform engineer\<newline>\<newline>Score how well the generator picked 3 experiences that best meet the job requirements and summarised them (0'' @ [0x2013] @ js ''10).'')"
proof -
  have 1: "\<exists>c\<in>set (js ''Platform engineer''). \<not> isWhiteSpace c"
    by (simp add: js_def isWhiteSpace_def)
  have 2: "\<forall>c\<in>set (js '' \<newline>''). isWhiteSpace c"
    by (simp add: js_def isWhiteSpace_def)
  show ?thesis
    using 1 2
      Discriminator_expected_block
        [of "\<lambda>m s u st sc p. Inl u" "js ''1. Platform engineer''"
            "\<lparr>DiscriminatorContext.generatorPrompt = js ''Pick 3 experiences.'',
              cvContent = js ''2019-2023 Platform engineer.'',
              jobRequirements = js ''DevOps'',
              expectedExperiences = Some (js ''Platform engineer'')\<rparr>"
            "js ''Platform engineer''"]
      Discriminator_expected_block
        [of "\<lambda>m s u st sc p. Inl u" "js ''1. Platform engineer''"
            "\<lparr>DiscriminatorContext.generatorPrompt = js ''Pick 3 experiences.'',
              cvContent = js ''2019-2023 Platform engineer.'',
              jobRequirements = js ''DevOps'',
              expectedExperiences = Some (js '' \<newline>'')\<rparr>"
            "js ''x''"]
    by (simp add: js_def)
qed

section \<open>Properties of the configurator\<close>

text \<open>What a call returns and what it leaves in the history, by the answer of the client.\<close>

lemma suggestNextPrompt_eq:
  "suggestNextPrompt numToString invoke gp gc sc cv job h =
     (case invoke DEFAULT_MODEL_NAME Configurator_DEFAULT_SYSTEM_PROMPT
             (Configurator_userPrompt numToString
                (h @ [\<lparr>generatorPrompt = gp, generatorConfig = gc, score = sc,
                        suggestedNextPrompt = None\<rparr>]) gp sc cv job)
             Configurator_DEFAULT_SETTINGS ConfiguratorOutputSchema DEFAULT_MODEL_PROVIDER of
        Inr response \<Rightarrow>
          if trim (suggestedPrompt response) \<noteq> []
          then (Inr (trim (suggestedPrompt response)),
                h @ [\<lparr>generatorPrompt = gp, generatorConfig = gc, score = sc,
                       suggestedNextPrompt = Some (trim (suggestedPrompt response))\<rparr>])
          else (Inr gp,
                h @ [\<lparr>generatorPrompt = gp, generatorConfig = gc, score = sc,
                       suggestedNextPrompt = None\<rparr>])
      | Inl error \<Rightarrow>
          (Inl error,
           h @ [\<lparr>generatorPrompt = gp, generatorConfig = gc, score = sc,
                  suggestedNextPrompt = None\<rparr>]))"
proof (cases "invoke DEFAULT_MODEL_NAME Configurator_DEFAULT_SYSTEM_PROMPT
             (Configurator_userPrompt numToString
                (h @ [\<lparr>generatorPrompt = gp, generatorConfig = gc, score = sc,
                        suggestedNextPrompt = None\<rparr>]) gp sc cv job)
             Configurator_DEFAULT_SETTINGS ConfiguratorOutputSchema DEFAULT_MODEL_PROVIDER")
  case (Inl error)
  then show ?thesis
    unfolding suggestNextPrompt_def Let_def by simp
next
  case (Inr response)
  then show ?thesis
    unfolding suggestNextPrompt_def Let_def
    by simp
qed

lemma suggestNextPrompt_fst:
  "fst (suggestNextPrompt numToString invoke gp gc sc cv job h) =
     map_sum id (\<lambda>r. if trim (suggestedPrompt r) \<noteq> [] then trim (suggestedPrompt r) else gp)
       (invoke DEFAULT_MODEL_NAME Configurator_DEFAULT_SYSTEM_PROMPT
          (Configurator_userPrompt numToString
             (h @ [\<lparr>generatorPrompt = gp, generatorConfig = gc, score = sc,
                     suggestedNextPrompt = None\<rparr>]) gp sc cv job)
          Configurator_DEFAULT_SETTINGS ConfiguratorOutputSchema DEFAULT_MODEL_PROVIDER)"
proof (cases "invoke DEFAULT_MODEL_NAME Configurator_DEFAULT_SYSTEM_PROMPT
           (Configurator_userPrompt numToString
              (h @ [\<lparr>generatorPrompt = gp, generatorConfig = gc, score = sc,
                      suggestedNextPrompt = None\<rparr>]) gp sc cv job)
           Configurator_DEFAULT_SETTINGS ConfiguratorOutputSchema DEFAULT_MODEL_PROVIDER")
  case (Inl error)
  then show ?thesis by (simp add: suggestNextPrompt_eq)
next
  case (Inr response)
  then show ?thesis by (simp add: suggestNextPrompt_eq)
qed

lemma suggestNextPrompt_appends:
  "\<exists>e. snd (suggestNextPrompt numToString invoke gp gc sc cv job h) = h @ [e] \<and>
       generatorPrompt e = gp \<and> generatorConfig e = gc \<and> score e = sc"
proof (cases "invoke DEFAULT_MODEL_NAME Configurator_DEFAULT_SYSTEM_PROMPT
             (Configurator_userPrompt numToString
                (h @ [\<lparr>generatorPrompt = gp, generatorConfig = gc, score = sc,
                        suggestedNextPrompt = None\<rparr>]) gp sc cv job)
             Configurator_DEFAULT_SETTINGS ConfiguratorOutputSchema DEFAULT_MODEL_PROVIDER")
  case (Inl error)
  then show ?thesis by (simp add: suggestNextPrompt_eq)
next
  case (Inr response)
  then show ?thesis by (simp add: suggestNextPrompt_eq)
qed

lemma suggestNextPrompt_calls_Cons:
  "snd (suggestNextPrompt_calls numToString (c # cs) h) =
   snd (suggestNextPrompt_calls numToString cs
          (snd (suggestNextPrompt numToString (call_invoke c) (call_generatorPrompt c)
                  (call_generatorConfig c) (call_score c) (call_cvContent c)
                  (call_jobRequirements c) h)))"
  by (simp only: suggestNextPrompt_calls.simps Let_def split_beta snd_conv)

lemma suggestNextPrompt_calls_length:
  "length (snd (suggestNextPrompt_calls numToString calls h)) = length h + length calls"
proof (induction calls arbitrary: h)
  case Nil
  show ?case by simp
next
  case (Cons c cs)
  obtain e where e: "snd (suggestNextPrompt numToString (call_invoke c) (call_generatorPrompt c)
      (call_generatorConfig c) (call_score c) (call_cvContent c) (call_jobRequirements c) h) = h @ [e]"
    using suggestNextPrompt_appends [of numToString "call_invoke c" "call_generatorPrompt c"
        "call_generatorConfig c" "call_score c" "call_cvContent c" "call_jobRequirements c" h]
    by (elim exE conjE)
  have "length (snd (suggestNextPrompt_calls numToString (c # cs) h)) =
        length (snd (suggestNextPrompt_calls numToString cs (h @ [e])))"
    by (simp only: suggestNextPrompt_calls_Cons e)
  also have "\<dots> = length (h @ [e]) + length cs"
    by (rule Cons.IH)
  finally show ?case by simp
qed

text \<open>
  C1. After any sequence of \<open>N\<close> calls of \<open>suggestNextPrompt\<close>, started on the empty
  history (the initial one, or the one \<open>clearHistory\<close> leaves), whatever the client
  answers to each call, the history has \<open>N\<close> entries. Each call appends exactly one entry,
  which holds the call's prompt, settings and score. The client is called with the
  request built from the history that already holds the entry: the entry is appended
  before the call of the client, whatever its outcome.
\<close>

theorem suggestNextPrompt_history_length:
  "length (snd (suggestNextPrompt_calls numToString calls [])) = length calls \<and>
   length (snd (suggestNextPrompt_calls numToString calls (clearHistory h))) = length calls \<and>
   (\<exists>e. snd (suggestNextPrompt numToString invoke gp gc sc cv job h) = h @ [e] \<and>
        generatorPrompt e = gp \<and> generatorConfig e = gc \<and> score e = sc) \<and>
   fst (suggestNextPrompt numToString invoke gp gc sc cv job h) =
     map_sum id (\<lambda>r. if trim (suggestedPrompt r) \<noteq> [] then trim (suggestedPrompt r) else gp)
       (invoke DEFAULT_MODEL_NAME Configurator_DEFAULT_SYSTEM_PROMPT
          (Configurator_userPrompt numToString
             (h @ [\<lparr>generatorPrompt = gp, generatorConfig = gc, score = sc,
                     suggestedNextPrompt = None\<rparr>]) gp sc cv job)
          Configurator_DEFAULT_SETTINGS ConfiguratorOutputSchema DEFAULT_MODEL_PROVIDER)"
proof -
  have "fst (suggestNextPrompt numToString invoke gp gc sc cv job h) =
     map_sum id (\<lambda>r. if trim (suggestedPrompt r) \<noteq> [] then trim (suggestedPrompt r) else gp)
       (invoke DEFAULT_MODEL_NAME Configurator_DEFAULT_SYSTEM_PROMPT
          (Configurator_userPrompt numToString
             (h @ [\<lparr>generatorPrompt = gp, generatorConfig = gc, score = sc,
                     suggestedNextPrompt = None\<rparr>]) gp sc cv job)
          Configurator_DEFAULT_SETTINGS ConfiguratorOutputSchema DEFAULT_MODEL_PROVIDER)"
  proof (cases "invoke DEFAULT_MODEL_NAME Configurator_DEFAULT_SYSTEM_PROMPT
             (Configurator_userPrompt numToString
                (h @ [\<lparr>generatorPrompt = gp, generatorConfig = gc, score = sc,
                        suggestedNextPrompt = None\<rparr>]) gp sc cv job)
             Configurator_DEFAULT_SETTINGS ConfiguratorOutputSchema DEFAULT_MODEL_PROVIDER")
    case (Inl error)
    then show ?thesis by (simp add: suggestNextPrompt_eq)
  next
    case (Inr response)
    then show ?thesis by (simp add: suggestNextPrompt_eq)
  qed
  then show ?thesis
    using suggestNextPrompt_appends [of numToString invoke gp gc sc cv job h]
    by (simp only: suggestNextPrompt_calls_length clearHistory_def list.size add_0 simp_thms)
qed

text \<open>
  C2. When the client succeeds, the suggestion is its answer without the white space at
  both ends. If that is not empty, it is returned and stored in the
  \<open>suggestedNextPrompt\<close> of the entry just appended (the last one); if it is empty, the
  caller's own prompt is returned and the entry's \<open>suggestedNextPrompt\<close> stays unset.
\<close>

theorem suggestNextPrompt_success:
  assumes "invoke DEFAULT_MODEL_NAME Configurator_DEFAULT_SYSTEM_PROMPT
             (Configurator_userPrompt numToString
                (h @ [\<lparr>generatorPrompt = gp, generatorConfig = gc, score = sc,
                        suggestedNextPrompt = None\<rparr>]) gp sc cv job)
             Configurator_DEFAULT_SETTINGS ConfiguratorOutputSchema DEFAULT_MODEL_PROVIDER =
           Inr response"
  shows "(trim (suggestedPrompt response) \<noteq> [] \<longrightarrow>
            suggestNextPrompt numToString invoke gp gc sc cv job h =
              (Inr (trim (suggestedPrompt response)),
               h @ [\<lparr>generatorPrompt = gp, generatorConfig = gc, score = sc,
                      suggestedNextPrompt = Some (trim (suggestedPrompt response))\<rparr>]) \<and>
            \<not> isWhiteSpace (hd (trim (suggestedPrompt response))) \<and>
            \<not> isWhiteSpace (last (trim (suggestedPrompt response)))) \<and>
         (trim (suggestedPrompt response) = [] \<longrightarrow>
            suggestNextPrompt numToString invoke gp gc sc cv job h =
              (Inr gp,
               h @ [\<lparr>generatorPrompt = gp, generatorConfig = gc, score = sc,
                      suggestedNextPrompt = None\<rparr>])) \<and>
         (\<exists>pre post. suggestedPrompt response = pre @ trim (suggestedPrompt response) @ post \<and>
            list_all isWhiteSpace pre \<and> list_all isWhiteSpace post)"
proof -
  have call: "suggestNextPrompt numToString invoke gp gc sc cv job h =
      (if trim (suggestedPrompt response) \<noteq> []
       then (Inr (trim (suggestedPrompt response)),
             h @ [\<lparr>generatorPrompt = gp, generatorConfig = gc, score = sc,
                    suggestedNextPrompt = Some (trim (suggestedPrompt response))\<rparr>])
       else (Inr gp,
             h @ [\<lparr>generatorPrompt = gp, generatorConfig = gc, score = sc,
                    suggestedNextPrompt = None\<rparr>]))"
    using assms by (simp add: suggestNextPrompt_eq)
  have ends: "trim (suggestedPrompt response) \<noteq> [] \<longrightarrow>
      \<not> isWhiteSpace (hd (trim (suggestedPrompt response))) \<and>
      \<not> isWhiteSpace (last (trim (suggestedPrompt response)))"
    using trim_ends [of "suggestedPrompt response"] by blast
  from call ends show ?thesis
    by (intro conjI impI trim_decompose) simp_all
qed

theorem suggestNextPrompt_success_witness:
  "suggestNextPrompt natToString
     (\<lambda>m s u st sc p. Inr \<lparr>suggestedPrompt = js ''  Emphasize DevOps and CI/CD experience.\<newline>''\<rparr> :: unit + ConfiguratorOutput)
     (js ''Pick 3 experiences matching the job.'')
     \<lparr>temperature = 1, maxTokens = 1024, timeout = Some 30000\<rparr> 4 None None [] =
     (Inr (js ''Emphasize DevOps and CI/CD experience.''),
      [\<lparr>generatorPrompt = js ''Pick 3 experiences matching the job.'',
        generatorConfig = \<lparr>temperature = 1, maxTokens = 1024, timeout = Some 30000\<rparr>,
        score = 4,
        suggestedNextPrompt = Some (js ''Emphasize DevOps and CI/CD experience.'')\<rparr>]) \<and>
   suggestNextPrompt natToString
     (\<lambda>m s u st sc p. Inr \<lparr>suggestedPrompt = js '' \<newline> ''\<rparr> :: unit + ConfiguratorOutput)
     (js ''Pick 3 experiences matching the job.'')
     \<lparr>temperature = 1, maxTokens = 1024, timeout = Some 30000\<rparr> 4 None None [] =
     (Inr (js ''Pick 3 experiences matching the job.''),
      [\<lparr>generatorPrompt = js ''Pick 3 experiences matching the job.'',
        generatorConfig = \<lparr>temperature = 1, maxTokens = 1024, timeout = Some 30000\<rparr>,
        score = 4,
        suggestedNextPrompt = None\<rparr>])"
proof -
  have t1: "trim (js ''  Emphasize DevOps and CI/CD experience.\<newline>'') =
            js ''Emphasize DevOps and CI/CD experience.''"
    by (simp add: trim_def js_def isWhiteSpace_def)
  have t2: "trim (js '' \<newline> '') = []"
    by (simp add: trim_def js_def isWhiteSpace_def)
  have n: "js ''Emphasize DevOps and CI/CD experience.'' \<noteq> []"
    by (simp add: js_def)
  show ?thesis
    using
      suggestNextPrompt_success
        [where invoke = "\<lambda>m s u st sc p. Inr \<lparr>suggestedPrompt = js ''  Emphasize DevOps and CI/CD experience.\<newline>''\<rparr> :: unit + ConfiguratorOutput"
           and numToString = natToString and h = "[]"
           and gp = "js ''Pick 3 experiences matching the job.''"
           and gc = "\<lparr>temperature = 1, maxTokens = 1024, timeout = Some 30000\<rparr>"
           and sc = 4 and cv = None and job = None
           and response = "\<lparr>suggestedPrompt = js ''  Emphasize DevOps and CI/CD experience.\<newline>''\<rparr>"]
      suggestNextPrompt_success
        [where invoke = "\<lambda>m s u st sc p. Inr \<lparr>suggestedPrompt = js '' \<newline> ''\<rparr> :: unit + ConfiguratorOutput"
           and numToString = natToString and h = "[]"
           and gp = "js ''Pick 3 experiences matching the job.''"
           and gc = "\<lparr>temperature = 1, maxTokens = 1024, timeout = Some 30000\<rparr>"
           and sc = 4 and cv = None and job = None
           and response = "\<lparr>suggestedPrompt = js '' \<newline> ''\<rparr>"]
    by (simp add: t1 t2 n)
qed

text \<open>
  C3. When the client fails, the entry appended at the start of the call stays in the
  history with its \<open>suggestedNextPrompt\<close> unset, and the call returns the client's error
  as it is.
\<close>

theorem suggestNextPrompt_failure:
  assumes "invoke DEFAULT_MODEL_NAME Configurator_DEFAULT_SYSTEM_PROMPT
             (Configurator_userPrompt numToString
                (h @ [\<lparr>generatorPrompt = gp, generatorConfig = gc, score = sc,
                        suggestedNextPrompt = None\<rparr>]) gp sc cv job)
             Configurator_DEFAULT_SETTINGS ConfiguratorOutputSchema DEFAULT_MODEL_PROVIDER =
           Inl error"
  shows "suggestNextPrompt numToString invoke gp gc sc cv job h =
           (Inl error,
            h @ [\<lparr>generatorPrompt = gp, generatorConfig = gc, score = sc,
                   suggestedNextPrompt = None\<rparr>])"
  using assms by (simp add: suggestNextPrompt_eq)

theorem suggestNextPrompt_failure_witness:
  "suggestNextPrompt natToString
     (\<lambda>m s u st sc p. Inl ''request timed out'' :: string + ConfiguratorOutput)
     (js ''Pick 3 experiences matching the job.'')
     \<lparr>temperature = 1, maxTokens = 1024, timeout = Some 30000\<rparr> 4 None None [] =
     (Inl ''request timed out'',
      [\<lparr>generatorPrompt = js ''Pick 3 experiences matching the job.'',
        generatorConfig = \<lparr>temperature = 1, maxTokens = 1024, timeout = Some 30000\<rparr>,
        score = 4,
        suggestedNextPrompt = None\<rparr>])"
  using suggestNextPrompt_failure
      [where invoke = "\<lambda>m s u st sc p. Inl ''request timed out'' :: string + ConfiguratorOutput"
         and numToString = natToString and h = "[]"
         and gp = "js ''Pick 3 experiences matching the job.''"
         and gc = "\<lparr>temperature = 1, maxTokens = 1024, timeout = Some 30000\<rparr>"
         and sc = 4 and cv = None and job = None and error = "''request timed out''"]
  by simp

text \<open>
  The history from which the request is built always holds the entry just pushed, so
  the history block is never the text for the empty history: it is the lines of the runs.
\<close>

lemma historyBlock_after_push:
  "historyBlock numToString (h @ [e]) =
     join (js ''\<newline>'')
       (map (\<lambda>(i, h). historyLine numToString h i) (enumerate 0 (h @ [e])))"
  by (simp add: historyBlock_def)

text \<open>
  C4. The call with the prompt "Pick 3 experiences matching the job." and the score 4 on
  the empty history, with a client that fails with the request it was sent: the request
  holds the current prompt and score, but its history block is the line of run 1, the
  entry just pushed, and the text "No previous runs yet." is nowhere in it.
\<close>

theorem suggestNextPrompt_empty_history_request:
  \<open>suggestNextPrompt natToString (\<lambda>m s u st sc p. Inl u)
     (js ''Pick 3 experiences matching the job.'')
     \<lparr>temperature = 1, maxTokens = 1024, timeout = Some 30000\<rparr> 4 None None [] =
     (Inl (js ''History of runs (most recent last):\<newline>Run 1: prompt="Pick 3 experiences matching the job.", score=4\<newline>\<newline>Current run we just got the score for: prompt="Pick 3 experiences matching the job.", score=4.\<newline>\<newline>Suggest the next generator prompt (instruction only, no CV or job text) to maximise the score. Reply with only the new instruction text.''),
      [\<lparr>generatorPrompt = js ''Pick 3 experiences matching the job.'',
        generatorConfig = \<lparr>temperature = 1, maxTokens = 1024, timeout = Some 30000\<rparr>,
        score = 4,
        suggestedNextPrompt = None\<rparr>]) \<and>
   \<not> sublist (js ''No previous runs yet.'')
      (js ''History of runs (most recent last):\<newline>Run 1: prompt="Pick 3 experiences matching the job.", score=4\<newline>\<newline>Current run we just got the score for: prompt="Pick 3 experiences matching the job.", score=4.\<newline>\<newline>Suggest the next generator prompt (instruction only, no CV or job text) to maximise the score. Reply with only the new instruction text.'')\<close>
proof (rule conjI)
  show \<open>suggestNextPrompt natToString (\<lambda>m s u st sc p. Inl u)
     (js ''Pick 3 experiences matching the job.'')
     \<lparr>temperature = 1, maxTokens = 1024, timeout = Some 30000\<rparr> 4 None None [] =
     (Inl (js ''History of runs (most recent last):\<newline>Run 1: prompt="Pick 3 experiences matching the job.", score=4\<newline>\<newline>Current run we just got the score for: prompt="Pick 3 experiences matching the job.", score=4.\<newline>\<newline>Suggest the next generator prompt (instruction only, no CV or job text) to maximise the score. Reply with only the new instruction text.''),
      [\<lparr>generatorPrompt = js ''Pick 3 experiences matching the job.'',
        generatorConfig = \<lparr>temperature = 1, maxTokens = 1024, timeout = Some 30000\<rparr>,
        score = 4,
        suggestedNextPrompt = None\<rparr>])\<close>
    by (simp add: suggestNextPrompt_eq Configurator_userPrompt_def historyBlock_def
          historyLine_def cvBlock_def jobBlock_def natToString.simps js_def)
  show \<open>\<not> sublist (js ''No previous runs yet.'')
      (js ''History of runs (most recent last):\<newline>Run 1: prompt="Pick 3 experiences matching the job.", score=4\<newline>\<newline>Current run we just got the score for: prompt="Pick 3 experiences matching the job.", score=4.\<newline>\<newline>Suggest the next generator prompt (instruction only, no CV or job text) to maximise the score. Reply with only the new instruction text.'')\<close>
    by (simp add: js_def sublist_code)
qed

text \<open>
  C7. Every call of \<open>suggestNextPrompt\<close> sends the client one request, built from the
  source text and the job requirements it was given. The excerpt of either string in the
  request is the first 1500 code units followed by \<open>"..."\<close> when the string is longer
  than 1500, and the string itself, with no marker, otherwise; both excerpts, under their
  headings, are part of the request that is sent.
\<close>

theorem excerpt_truncation:
  \<open>fst (suggestNextPrompt numToString invoke gp gc sc cv job h) =
     map_sum id (\<lambda>r. if trim (suggestedPrompt r) \<noteq> [] then trim (suggestedPrompt r) else gp)
       (invoke DEFAULT_MODEL_NAME Configurator_DEFAULT_SYSTEM_PROMPT
          (Configurator_userPrompt numToString
             (h @ [\<lparr>generatorPrompt = gp, generatorConfig = gc, score = sc,
                     suggestedNextPrompt = None\<rparr>]) gp sc cv job)
          Configurator_DEFAULT_SETTINGS ConfiguratorOutputSchema DEFAULT_MODEL_PROVIDER) \<and>
   sublist (jobBlock job @ cvBlock cv)
     (Configurator_userPrompt numToString
        (h @ [\<lparr>generatorPrompt = gp, generatorConfig = gc, score = sc,
                suggestedNextPrompt = None\<rparr>]) gp sc cv job) \<and>
   cvBlock (Some s) =
     js ''\<newline>\<newline>Source CV context (excerpt):\<newline>'' @
     (if length s > 1500 then take 1500 s @ js ''...'' else s) \<and>
   jobBlock (Some s) =
     js ''\<newline>\<newline>Job requirements (excerpt):\<newline>'' @
     (if length s > 1500 then take 1500 s @ js ''...'' else s) \<and>
   sublist (jobBlock job @ cvBlock cv) (Configurator_userPrompt numToString history gp sc cv job)\<close>
proof -
  have \<open>Configurator_userPrompt numToString hist gp sc cv job =
      (js ''History of runs (most recent last):\<newline>'' @ historyBlock numToString hist @
       js ''\<newline>\<newline>Current run we just got the score for: prompt="'' @ gp @
       js ''", score='' @ numToString sc @ js ''.'') @
      (jobBlock job @ cvBlock cv) @
      js ''\<newline>\<newline>Suggest the next generator prompt (instruction only, no CV or job text) to maximise the score. Reply with only the new instruction text.''\<close>
    for hist
    by (simp only: Configurator_userPrompt_def append_assoc)
  then have sub: "sublist (jobBlock job @ cvBlock cv)
      (Configurator_userPrompt numToString hist gp sc cv job)" for hist
    by (simp only: sublist_appendI)
  have cv: \<open>cvBlock (Some s) =
      js ''\<newline>\<newline>Source CV context (excerpt):\<newline>'' @
      (if length s > 1500 then take 1500 s @ js ''...'' else s)\<close>
    by (simp add: cvBlock_def)
  have job: \<open>jobBlock (Some s) =
      js ''\<newline>\<newline>Job requirements (excerpt):\<newline>'' @
      (if length s > 1500 then take 1500 s @ js ''...'' else s)\<close>
    by (simp add: jobBlock_def)
  show ?thesis
    by (intro conjI suggestNextPrompt_fst sub cv job)
qed

text \<open>
  The line of a run: the preview of the prompt has the marker exactly when the prompt is
  longer than 120 code units; the preview of a suggested prompt is always followed by
  the marker.
\<close>

lemma historyLine_prompt_preview:
  \<open>\<exists>rest. historyLine numToString h i =
     js ''Run '' @ natToString (i + 1) @ js '': prompt="'' @
     (if length (generatorPrompt h) > 120 then take 120 (generatorPrompt h) @ js ''...''
      else generatorPrompt h) @
     js ''", score='' @ numToString (score h) @ rest\<close>
  by (cases "suggestedNextPrompt h") (simp_all add: historyLine_def)

lemma historyLine_suggested_preview:
  assumes "suggestedNextPrompt h = Some s"
  shows \<open>\<exists>part. historyLine numToString h i =
     part @ js '' (suggested next prompt: "'' @ take 60 s @ js ''...")''\<close>
  using assms by (simp add: historyLine_def Let_def)

text \<open>
  C8. Two calls in a row: the first succeeds with the suggestion "Be brief." (9 code
  units, under the limit of 60), the second fails with the request it was sent. In the
  history block of the second request, the preview of the suggestion of run 1 is followed
  by \<open>"..."\<close> although nothing was cut; the previews of the prompts, which are under 120
  code units, have no marker.
\<close>

theorem historyBlock_suggested_preview:
  \<open>fst (suggestNextPrompt_calls natToString
      [\<lparr>call_invoke = (\<lambda>m s u st sc p. Inr \<lparr>suggestedPrompt = js ''Be brief.''\<rparr>),
        call_generatorPrompt = js ''Pick 3.'',
        call_generatorConfig = \<lparr>temperature = 1, maxTokens = 1024, timeout = Some 30000\<rparr>,
        call_score = 4, call_cvContent = None, call_jobRequirements = None\<rparr>,
       \<lparr>call_invoke = (\<lambda>m s u st sc p. Inl u),
        call_generatorPrompt = js ''Be brief.'',
        call_generatorConfig = \<lparr>temperature = 1, maxTokens = 1024, timeout = Some 30000\<rparr>,
        call_score = 5, call_cvContent = None, call_jobRequirements = None\<rparr>] []) =
    [Inr (js ''Be brief.''),
     Inl (js ''History of runs (most recent last):\<newline>Run 1: prompt="Pick 3.", score=4 (suggested next prompt: "Be brief....")\<newline>Run 2: prompt="Be brief.", score=5\<newline>\<newline>Current run we just got the score for: prompt="Be brief.", score=5.\<newline>\<newline>Suggest the next generator prompt (instruction only, no CV or job text) to maximise the score. Reply with only the new instruction text.'')]\<close>
proof -
  have t: "trim (js ''Be brief.'') = js ''Be brief.''"
    by (simp add: trim_def js_def isWhiteSpace_def)
  have n: "js ''Be brief.'' \<noteq> []"
    by (simp add: js_def)
  have 1: \<open>suggestNextPrompt natToString
      (\<lambda>m s u st sc p. Inr \<lparr>suggestedPrompt = js ''Be brief.''\<rparr> :: jsstring + ConfiguratorOutput)
      (js ''Pick 3.'') \<lparr>temperature = 1, maxTokens = 1024, timeout = Some 30000\<rparr> 4 None None [] =
      (Inr (js ''Be brief.''),
       [\<lparr>generatorPrompt = js ''Pick 3.'',
         generatorConfig = \<lparr>temperature = 1, maxTokens = 1024, timeout = Some 30000\<rparr>,
         score = 4, suggestedNextPrompt = Some (js ''Be brief.'')\<rparr>])\<close>
    by (simp add: suggestNextPrompt_eq t n)
  have 2: \<open>suggestNextPrompt natToString (\<lambda>m s u st sc p. Inl u)
      (js ''Be brief.'') \<lparr>temperature = 1, maxTokens = 1024, timeout = Some 30000\<rparr> 5 None None
      [\<lparr>generatorPrompt = js ''Pick 3.'',
         generatorConfig = \<lparr>temperature = 1, maxTokens = 1024, timeout = Some 30000\<rparr>,
         score = 4, suggestedNextPrompt = Some (js ''Be brief.'')\<rparr>] =
      (Inl (js ''History of runs (most recent last):\<newline>Run 1: prompt="Pick 3.", score=4 (suggested next prompt: "Be brief....")\<newline>Run 2: prompt="Be brief.", score=5\<newline>\<newline>Current run we just got the score for: prompt="Be brief.", score=5.\<newline>\<newline>Suggest the next generator prompt (instruction only, no CV or job text) to maximise the score. Reply with only the new instruction text.''),
       [\<lparr>generatorPrompt = js ''Pick 3.'',
         generatorConfig = \<lparr>temperature = 1, maxTokens = 1024, timeout = Some 30000\<rparr>,
         score = 4, suggestedNextPrompt = Some (js ''Be brief.'')\<rparr>,
        \<lparr>generatorPrompt = js ''Be brief.'',
         generatorConfig = \<lparr>temperature = 1, maxTokens = 1024, timeout = Some 30000\<rparr>,
         score = 5, suggestedNextPrompt = None\<rparr>])\<close>
    by (simp add: suggestNextPrompt_eq Configurator_userPrompt_def historyBlock_def
          historyLine_def cvBlock_def jobBlock_def natToString.simps js_def enumerate_eq_zip
          upt_rec)
  show ?thesis
    by (simp only: suggestNextPrompt_calls.simps suggestNextPrompt_call.select_convs 1 2
          Let_def prod.case fst_conv)
qed

section \<open>Properties of the generator\<close>

text \<open>
  C6. The settings that \<open>run\<close> passes to the client are the defaults (temperature 0.7,
  maxTokens 1024, timeout 30000 ms, and no other property) when no overrides are given;
  with overrides, every property that the overrides hold has the overrides' value, and
  every other property has its default. (A property held with the value \<open>undefined\<close> is
  a property the overrides hold.)
\<close>

theorem Generator_settings_merge:
  "Generator_settings None = map_option Some \<circ> Generator_DEFAULT_SETTINGS \<and>
   (ov k = Some v \<longrightarrow> Generator_settings (Some ov) k = Some v) \<and>
   (ov k = None \<longrightarrow>
      Generator_settings (Some ov) k = map_option Some (Generator_DEFAULT_SETTINGS k)) \<and>
   Generator_DEFAULT_SETTINGS ''temperature'' = Some 0.7 \<and>
   Generator_DEFAULT_SETTINGS ''maxTokens'' = Some 1024 \<and>
   Generator_DEFAULT_SETTINGS ''timeout'' = Some 30000 \<and>
   dom Generator_DEFAULT_SETTINGS = {''temperature'', ''maxTokens'', ''timeout''} \<and>
   Generator_run invoke prompt overrides =
     (case invoke DEFAULT_MODEL_NAME Generator_DEFAULT_SYSTEM_PROMPT prompt
             (Generator_settings overrides) GeneratorOutputSchema DEFAULT_MODEL_PROVIDER of
        Inr response \<Rightarrow> Inr (text response)
      | Inl error \<Rightarrow> Inl error)"
proof (intro conjI impI)
  show "Generator_settings None = map_option Some \<circ> Generator_DEFAULT_SETTINGS"
    by (simp add: Generator_settings_def spread_def)
  show "Generator_settings (Some ov) k = Some v" if "ov k = Some v"
    using that by (simp add: Generator_settings_def spread_def map_add_def)
  show "Generator_settings (Some ov) k = map_option Some (Generator_DEFAULT_SETTINGS k)"
    if "ov k = None"
    using that by (simp add: Generator_settings_def spread_def map_add_def)
  show "Generator_DEFAULT_SETTINGS ''temperature'' = Some 0.7"
    by (simp add: Generator_DEFAULT_SETTINGS_def)
  show "Generator_DEFAULT_SETTINGS ''maxTokens'' = Some 1024"
    by (simp add: Generator_DEFAULT_SETTINGS_def)
  show "Generator_DEFAULT_SETTINGS ''timeout'' = Some 30000"
    by (simp add: Generator_DEFAULT_SETTINGS_def)
  show "dom Generator_DEFAULT_SETTINGS = {''temperature'', ''maxTokens'', ''timeout''}"
    by (auto simp: Generator_DEFAULT_SETTINGS_def)
  show "Generator_run invoke prompt overrides =
     (case invoke DEFAULT_MODEL_NAME Generator_DEFAULT_SYSTEM_PROMPT prompt
             (Generator_settings overrides) GeneratorOutputSchema DEFAULT_MODEL_PROVIDER of
        Inr response \<Rightarrow> Inr (text response)
      | Inl error \<Rightarrow> Inl error)"
    by (simp add: Generator_run_def)
qed

theorem Generator_settings_merge_witness:
  "Generator_settings (Some [''temperature'' \<mapsto> Some 0.2]) ''temperature'' = Some (Some 0.2) \<and>
   Generator_settings (Some [''temperature'' \<mapsto> Some 0.2]) ''maxTokens'' = Some (Some 1024) \<and>
   Generator_settings (Some [''temperature'' \<mapsto> Some 0.2]) ''timeout'' = Some (Some 30000)"
  using
    Generator_settings_merge
      [where ov = "[''temperature'' \<mapsto> Some 0.2]" and k = "''temperature''" and v = "Some 0.2"
         and invoke = "\<lambda>m s u st sc p. Inl ()" and prompt = "[]" and overrides = None]
    Generator_settings_merge
      [where ov = "[''temperature'' \<mapsto> Some 0.2]" and k = "''maxTokens''"
         and invoke = "\<lambda>m s u st sc p. Inl ()" and prompt = "[]" and overrides = None]
    Generator_settings_merge
      [where ov = "[''temperature'' \<mapsto> Some 0.2]" and k = "''timeout''"
         and invoke = "\<lambda>m s u st sc p. Inl ()" and prompt = "[]" and overrides = None]
  by simp

end
